theory Spec2Isabelle
  imports Complex_Main
begin

section \<open>JavaScript values\<close>

text \<open>
  The sync engine is dynamically typed: the values it compares are numbers, strings,
  booleans, \<^verbatim>\<open>null\<close> and \<^verbatim>\<open>undefined\<close>. Finite numbers are idealised as reals;
  \<^verbatim>\<open>NaN\<close> is a value of its own (\<^verbatim>\<open>typeof NaN === 'number'\<close>); the two infinities
  are outside the model.
\<close>

datatype jsval = JUndefined | JNull | JNum real | JNaN | JStr string | JBool bool

text \<open>
  \<^verbatim>\<open>Number.prototype.toString\<close> and the string-to-number grammar of \<^verbatim>\<open>Number(s)\<close>
  belong to the language runtime, not to the repository: they are parameters.
\<close>

record runtime =
  numberToString :: "real \<Rightarrow> string"
  parseNumber :: "string \<Rightarrow> jsval"

definition nullish :: "jsval \<Rightarrow> bool" where
  "nullish v = (v = JNull \<or> v = JUndefined)"

fun is_number :: "jsval \<Rightarrow> bool" where
  "is_number (JNum _) = True"
| "is_number JNaN = True"
| "is_number _ = False"

fun truthy :: "jsval \<Rightarrow> bool" where
  "truthy JUndefined = False"
| "truthy JNull = False"
| "truthy (JNum x) = (x \<noteq> 0)"
| "truthy JNaN = False"
| "truthy (JStr s) = (s \<noteq> [])"
| "truthy (JBool b) = b"

fun js_String :: "runtime \<Rightarrow> jsval \<Rightarrow> string" where
  "js_String rt JUndefined = ''undefined''"
| "js_String rt JNull = ''null''"
| "js_String rt (JNum x) = numberToString rt x"
| "js_String rt JNaN = ''NaN''"
| "js_String rt (JStr s) = s"
| "js_String rt (JBool b) = (if b then ''true'' else ''false'')"

fun js_Number :: "runtime \<Rightarrow> jsval \<Rightarrow> jsval" where
  "js_Number rt JUndefined = JNaN"
| "js_Number rt JNull = JNum 0"
| "js_Number rt (JNum x) = JNum x"
| "js_Number rt JNaN = JNaN"
| "js_Number rt (JStr s) = parseNumber rt s"
| "js_Number rt (JBool b) = JNum (if b then 1 else 0)"

text \<open>\<^verbatim>\<open>String.prototype.trim\<close> on byte strings: the ASCII white space and line ends.\<close>

definition is_space :: "char \<Rightarrow> bool" where
  "is_space c = (of_char c = (32::nat) \<or> (9 \<le> (of_char c :: nat) \<and> (of_char c :: nat) \<le> 13))"

definition trim :: "string \<Rightarrow> string" where
  "trim s = rev (dropWhile is_space (rev (dropWhile is_space s)))"

section \<open>Objects used as dictionaries\<close>

text \<open>
  A plain object \<^verbatim>\<open>{}\<close> filled by \<^verbatim>\<open>map[k] = v\<close> is an association list with
  distinct keys in insertion order: a later write to an existing key replaces the value
  and keeps the position. Keys are ordinary own properties; names inherited from
  \<^verbatim>\<open>Object.prototype\<close> are outside the model.
\<close>

type_synonym 'a obj = "(string \<times> 'a) list"

definition obj_get :: "'a obj \<Rightarrow> string \<Rightarrow> 'a option" where
  "obj_get m k = map_of m k"

fun obj_set :: "'a obj \<Rightarrow> string \<Rightarrow> 'a \<Rightarrow> 'a obj" where
  "obj_set [] k v = [(k, v)]"
| "obj_set (p # ps) k v = (if fst p = k then (k, v) # ps else p # obj_set ps k v)"

text \<open>
  \<^verbatim>\<open>Object.values\<close> and \<^verbatim>\<open>Object.entries\<close> list the array-index keys first, in
  ascending numeric order, then the other keys in insertion order.
\<close>

definition is_digit :: "char \<Rightarrow> bool" where
  "is_digit c = (48 \<le> (of_char c :: nat) \<and> (of_char c :: nat) \<le> 57)"

definition str_nat :: "string \<Rightarrow> nat" where
  "str_nat s = foldl (\<lambda>n c. 10 * n + (of_char c - 48)) 0 s"

definition is_array_index :: "string \<Rightarrow> bool" where
  "is_array_index s =
     (case s of [] \<Rightarrow> False
      | c # cs \<Rightarrow> list_all is_digit s \<and> (cs = [] \<or> c \<noteq> CHR ''0'') \<and> str_nat s < 4294967295)"

definition obj_entries :: "'a obj \<Rightarrow> 'a obj" where
  "obj_entries m =
     sort_key (\<lambda>p. str_nat (fst p)) (filter (\<lambda>p. is_array_index (fst p)) m)
     @ filter (\<lambda>p. \<not> is_array_index (fst p)) m"

definition obj_values :: "'a obj \<Rightarrow> 'a list" where
  "obj_values m = map snd (obj_entries m)"

text \<open>The idiom \<^verbatim>\<open>if (!groups[k]) groups[k] = []; groups[k].push(x)\<close> inside a \<^verbatim>\<open>forEach\<close>.\<close>

definition group_push :: "'a list obj \<Rightarrow> string \<Rightarrow> 'a \<Rightarrow> 'a list obj" where
  "group_push m k x =
     (case obj_get m k of None \<Rightarrow> obj_set m k [x] | Some xs \<Rightarrow> obj_set m k (xs @ [x]))"

fun group_into :: "('a \<Rightarrow> string) \<Rightarrow> 'a list \<Rightarrow> 'a list obj \<Rightarrow> 'a list obj" where
  "group_into f [] m = m"
| "group_into f (x # xs) m = group_into f xs (group_push m (f x) x)"

section \<open>Records of the two services\<close>

text \<open>A custom field item of a Trello card: \<^verbatim>\<open>{idCustomField, value: {number|text|checked}}\<close>.\<close>

record item_value =
  v_number :: jsval
  v_text :: jsval
  v_checked :: jsval

record field_item =
  idCustomField :: string
  item_val :: "item_value option"

record card =
  card_id :: string
  card_name :: string
  idList :: string
  dateLastActivity :: int
  customFieldItems :: "field_item list option"

record field_def =
  field_id :: string
  field_name :: string

record trello_list =
  list_id :: string
  list_name :: string

text \<open>
  A Notion property is an object with one of the keys \<^verbatim>\<open>title\<close>, \<^verbatim>\<open>rich_text\<close>,
  \<^verbatim>\<open>select\<close>, \<^verbatim>\<open>number\<close>, \<^verbatim>\<open>formula\<close>, \<^verbatim>\<open>checkbox\<close>. A rich-text item may lack
  \<^verbatim>\<open>text.content\<close>; a select may be \<^verbatim>\<open>null\<close>; a formula has a result type.
\<close>

datatype rich = Rich "string option"

datatype formula = FNumber jsval | FOther

datatype notion_prop =
    Title "rich list"
  | RichText "rich list"
  | Select "string option"
  | Number jsval
  | Formula formula
  | Checkbox bool

type_synonym properties = "notion_prop obj"

record entry =
  entry_id :: string
  entry_properties :: properties

section \<open>The record mapper (utils/mapping.js)\<close>

definition hasChanged :: "runtime \<Rightarrow> jsval \<Rightarrow> jsval \<Rightarrow> bool" where
  "hasChanged rt value1 value2 =
     (if nullish value1 \<and> nullish value2 then False
      else if nullish value1 \<or> nullish value2 then True
      else if is_number value1 \<and> is_number value2 then
        (case (value1, value2) of
           (JNum a, JNum b) \<Rightarrow> \<bar>a - b\<bar> > 1 / 1000
         | _ \<Rightarrow> False)
      else trim (js_String rt value1) \<noteq> trim (js_String rt value2))"

text \<open>Reading a key of the extracted custom-field object: a missing key is \<^verbatim>\<open>undefined\<close>.\<close>

definition field_value :: "jsval obj \<Rightarrow> string \<Rightarrow> jsval" where
  "field_value customFields k = (case obj_get customFields k of None \<Rightarrow> JUndefined | Some v \<Rightarrow> v)"

definition number_prop :: "runtime \<Rightarrow> jsval obj \<Rightarrow> string \<Rightarrow> properties" where
  "number_prop rt customFields k =
     (if field_value customFields k \<noteq> JUndefined \<and> field_value customFields k \<noteq> JNull
      then [(k, Number (js_Number rt (field_value customFields k)))] else [])"

definition mapTrelloToNotion :: "runtime \<Rightarrow> card \<Rightarrow> jsval obj \<Rightarrow> string \<Rightarrow> properties" where
  "mapTrelloToNotion rt trelloCard customFields listName =
     [(''Priority Name'', Title [Rich (Some (card_name trelloCard))]),
      (''Department'', Select (Some (if listName \<noteq> [] then listName else ''Unknown''))),
      (''Trello ID'', RichText [Rich (Some (card_id trelloCard))])]
     @ number_prop rt customFields ''Reach''
     @ number_prop rt customFields ''Confidence''
     @ number_prop rt customFields ''Effort''
     @ number_prop rt customFields ''Impact''
     @ [(''synced'', Checkbox True)]"

text \<open>\<^verbatim>\<open>p?.title?.[0]?.text?.content\<close>, \<^verbatim>\<open>p?.number\<close>: optional chaining on a property.\<close>

fun title_content :: "notion_prop option \<Rightarrow> jsval" where
  "title_content (Some (Title (Rich (Some s) # _))) = JStr s"
| "title_content _ = JUndefined"

fun number_of :: "notion_prop option \<Rightarrow> jsval" where
  "number_of (Some (Number v)) = v"
| "number_of _ = JUndefined"

definition number_field :: "properties \<Rightarrow> string \<Rightarrow> jsval obj" where
  "number_field ps k =
     (if number_of (obj_get ps k) \<noteq> JNull \<and> number_of (obj_get ps k) \<noteq> JUndefined
      then [(k, number_of (obj_get ps k))] else [])"

record trello_update =
  update_name :: "string option"
  update_customFields :: "jsval obj"

definition mapNotionToTrello :: "entry \<Rightarrow> trello_update" where
  "mapNotionToTrello notionEntry =
     \<lparr> update_name =
         (case title_content (obj_get (entry_properties notionEntry) ''Priority Name'') of
            JStr s \<Rightarrow> (if s \<noteq> [] then Some s else None)
          | _ \<Rightarrow> None),
       update_customFields =
         number_field (entry_properties notionEntry) ''Reach''
         @ number_field (entry_properties notionEntry) ''Confidence''
         @ number_field (entry_properties notionEntry) ''Effort''
         @ number_field (entry_properties notionEntry) ''Impact''
         @ [(''synced'', JBool True)] \<rparr>"

definition item_extract :: "item_value option \<Rightarrow> jsval" where
  "item_extract v =
     (case v of
        None \<Rightarrow> JNum 0
      | Some iv \<Rightarrow>
          if v_number iv \<noteq> JUndefined then v_number iv
          else if v_text iv \<noteq> JUndefined then v_text iv
          else if v_checked iv \<noteq> JUndefined then JBool (v_checked iv = JStr ''true'')
          else JNum 0)"

fun extract_items :: "string obj \<Rightarrow> field_item list \<Rightarrow> jsval obj \<Rightarrow> jsval obj" where
  "extract_items fieldMap [] customFields = customFields"
| "extract_items fieldMap (item # items) customFields =
     extract_items fieldMap items
       (case obj_get fieldMap (idCustomField item) of
          None \<Rightarrow> customFields
        | Some fieldName \<Rightarrow>
            if fieldName \<noteq> [] then obj_set customFields fieldName (item_extract (item_val item))
            else customFields)"

definition extractTrelloCustomFields :: "card \<Rightarrow> field_def list \<Rightarrow> jsval obj" where
  "extractTrelloCustomFields trelloCard boardCustomFields =
     (case customFieldItems trelloCard of
        None \<Rightarrow> []
      | Some items \<Rightarrow>
          extract_items
            (foldl (\<lambda>m f. obj_set m (field_id f) (field_name f)) [] boardCustomFields)
            items [])"

section \<open>The Notion accessors (services/notion.js)\<close>

fun rich_first :: "rich list \<Rightarrow> string" where
  "rich_first (Rich (Some s) # _) = s"
| "rich_first _ = []"

fun extractRichTextValue :: "notion_prop option \<Rightarrow> string" where
  "extractRichTextValue (Some (RichText rs)) = rich_first rs"
| "extractRichTextValue _ = []"

fun extractTitleValue :: "notion_prop option \<Rightarrow> string" where
  "extractTitleValue (Some (Title rs)) = rich_first rs"
| "extractTitleValue _ = []"

fun extractSelectValue :: "notion_prop option \<Rightarrow> string" where
  "extractSelectValue (Some (Select (Some n))) = n"
| "extractSelectValue _ = []"

definition extractNumberValue :: "notion_prop option \<Rightarrow> jsval" where
  "extractNumberValue p = number_of p"

fun extractNumericValue :: "notion_prop option \<Rightarrow> jsval" where
  "extractNumericValue (Some (Number v)) = (if v \<noteq> JUndefined then v else JNull)"
| "extractNumericValue (Some (Formula (FNumber v))) = v"
| "extractNumericValue _ = JNull"

fun extractCheckboxValue :: "notion_prop option \<Rightarrow> bool" where
  "extractCheckboxValue (Some (Checkbox b)) = b"
| "extractCheckboxValue _ = False"

definition generateNotionPageUrl :: "string \<Rightarrow> string" where
  "generateNotionPageUrl pageId = ''https://www.notion.so/'' @ filter (\<lambda>c. c \<noteq> CHR ''-'') pageId"

definition trelloIdOf :: "entry \<Rightarrow> string" where
  "trelloIdOf e = extractRichTextValue (obj_get (entry_properties e) ''Trello ID'')"

section \<open>Remote calls, the remote side, the engine state\<close>

datatype call =
    NotionCreateEntry properties
  | NotionUpdateEntry string properties
  | NotionDeletePage string
  | TrelloCreateCard string "string option"
  | TrelloUpdateCard string string
  | TrelloMoveCard string string
  | TrelloUpdateCustomField string string jsval
  | TrelloUpdateTextCustomField string string jsval
  | TrelloUpdateCheckboxCustomField string string jsval
  | TrelloDeleteCard string
  | TrelloGetCards
  | TrelloGetCustomFields

datatype error = ApiError string

text \<open>The calls of one pass in the order issued, each with whether it succeeded.\<close>

type_synonym trace = "(call \<times> bool) list"

text \<open>
  The two services are the environment. What a listing returns, whether a call is
  rejected and which id a created card gets may all depend on the calls issued so far.
\<close>

record remote =
  js :: runtime
  apiCards :: "trace \<Rightarrow> error + card list"
  apiLists :: "trace \<Rightarrow> error + trello_list list"
  apiCustomFields :: "trace \<Rightarrow> error + field_def list"
  apiEntries :: "trace \<Rightarrow> error + entry list"
  callFails :: "trace \<Rightarrow> call \<Rightarrow> bool"
  createdCardId :: "trace \<Rightarrow> string"

record sync_state =
  trelloToNotion_created :: nat
  trelloToNotion_updated :: nat
  notionToTrello_created :: nat
  notionToTrello_updated :: nat
  errors :: nat
  calls :: trace

definition resetStats :: sync_state where
  "resetStats =
     \<lparr> trelloToNotion_created = 0, trelloToNotion_updated = 0,
       notionToTrello_created = 0, notionToTrello_updated = 0,
       errors = 0, calls = [] \<rparr>"

definition logged :: "call \<Rightarrow> bool \<Rightarrow> sync_state \<Rightarrow> sync_state" where
  "logged c ok st = st\<lparr>calls := calls st @ [(c, ok)]\<rparr>"

definition perform :: "remote \<Rightarrow> call \<Rightarrow> sync_state \<Rightarrow> bool \<times> sync_state" where
  "perform r c st = (\<not> callFails r (calls st) c, logged c (\<not> callFails r (calls st) c) st)"

definition count_error :: "sync_state \<Rightarrow> sync_state" where
  "count_error st = st\<lparr>errors := errors st + 1\<rparr>"

section \<open>The Trello service (services/trello.js)\<close>

text \<open>
  \<open>dateLastActivity\<close> is the time stamp \<^verbatim>\<open>new Date(...)\<close> reads from the card, as a
  number; the sort of the duplicates is stable. The duplicates handed to
  \<open>keep_of_duplicates\<close> are at least two, so the heads taken exist.
\<close>

definition keep_of_duplicates :: "card list \<Rightarrow> card" where
  "keep_of_duplicates duplicateCards =
     (let sorted = sort_key dateLastActivity duplicateCards;
          nonContentCurriculumCards =
            filter (\<lambda>c. idList c \<noteq> ''686df2204803664e4331f70d'') sorted;
          originalCards = filter (\<lambda>c. take 5 (card_id c) \<noteq> ''688bc'') sorted
      in if nonContentCurriculumCards \<noteq> [] then hd nonContentCurriculumCards
         else if originalCards \<noteq> [] then hd originalCards
         else hd sorted)"

definition removeProblematicCards :: "card list \<Rightarrow> card list" where
  "removeProblematicCards cards =
     map (\<lambda>(cardName, duplicateCards).
            case duplicateCards of [c] \<Rightarrow> c | _ \<Rightarrow> keep_of_duplicates duplicateCards)
         (obj_entries (group_into (\<lambda>c. trim (card_name c)) cards []))"

definition getCards :: "remote \<Rightarrow> trace \<Rightarrow> error + card list" where
  "getCards r t =
     (case apiCards r t of Inl e \<Rightarrow> Inl e | Inr cards \<Rightarrow> Inr (removeProblematicCards cards))"

section \<open>The sync engine (sync/syncEngine.js)\<close>

definition truthy_get :: "string obj \<Rightarrow> string \<Rightarrow> string option" where
  "truthy_get m k = (case obj_get m k of None \<Rightarrow> None | Some v \<Rightarrow> if v \<noteq> [] then Some v else None)"

definition createListMap :: "trello_list list \<Rightarrow> string obj" where
  "createListMap trelloLists = foldl (\<lambda>m l. obj_set m (list_id l) (list_name l)) [] trelloLists"

definition createListMapReverse :: "trello_list list \<Rightarrow> string obj" where
  "createListMapReverse trelloLists =
     foldl (\<lambda>m l. obj_set m (list_name l) (list_id l)) [] trelloLists"

definition createCustomFieldMap :: "field_def list \<Rightarrow> string obj" where
  "createCustomFieldMap trelloCustomFields =
     foldl (\<lambda>m f. obj_set m (field_name f) (field_id f)) [] trelloCustomFields"

definition createNotionLookupMap :: "entry list \<Rightarrow> entry obj" where
  "createNotionLookupMap notionEntries =
     foldl (\<lambda>m e. if trelloIdOf e \<noteq> [] then obj_set m (trelloIdOf e) e else m) [] notionEntries"

definition createCardMap :: "card list \<Rightarrow> card obj" where
  "createCardMap trelloCards = foldl (\<lambda>m c. obj_set m (card_id c) c) [] trelloCards"

definition find_item :: "card \<Rightarrow> string \<Rightarrow> item_value option" where
  "find_item trelloCard customFieldId =
     (case customFieldItems trelloCard of
        None \<Rightarrow> None
      | Some items \<Rightarrow>
          (case find (\<lambda>i. idCustomField i = customFieldId) items of
             None \<Rightarrow> None
           | Some i \<Rightarrow> item_val i))"

definition getTrelloCustomFieldValue :: "card \<Rightarrow> string \<Rightarrow> jsval" where
  "getTrelloCustomFieldValue trelloCard customFieldId =
     (case find_item trelloCard customFieldId of
        None \<Rightarrow> JNull
      | Some v \<Rightarrow> if truthy (v_number v) then v_number v else JNull)"

definition getTrelloTextCustomFieldValue :: "card \<Rightarrow> string \<Rightarrow> jsval" where
  "getTrelloTextCustomFieldValue trelloCard customFieldId =
     (case find_item trelloCard customFieldId of
        None \<Rightarrow> JNull
      | Some v \<Rightarrow> if truthy (v_text v) then v_text v else JNull)"

text \<open>The result is only tested for truth, so \<^verbatim>\<open>null\<close> (no items) is \<open>False\<close>.\<close>

definition getTrelloCheckboxCustomFieldValue :: "card \<Rightarrow> string \<Rightarrow> bool" where
  "getTrelloCheckboxCustomFieldValue trelloCard customFieldId =
     (case find_item trelloCard customFieldId of
        None \<Rightarrow> False
      | Some v \<Rightarrow> v_checked v = JStr ''true'')"

definition shouldUpdateNotionEntry :: "runtime \<Rightarrow> entry \<Rightarrow> card \<Rightarrow> jsval obj \<Rightarrow> string \<Rightarrow> bool" where
  "shouldUpdateNotionEntry rt notionEntry trelloCard customFields listName =
     (hasChanged rt
        (JStr (extractTitleValue (obj_get (entry_properties notionEntry) ''Priority Name'')))
        (JStr (card_name trelloCard))
      \<or> hasChanged rt
        (JStr (extractSelectValue (obj_get (entry_properties notionEntry) ''Department'')))
        (JStr listName)
      \<or> list_ex
        (\<lambda>fieldName.
           hasChanged rt
             (extractNumberValue (obj_get (entry_properties notionEntry) fieldName))
             (field_value customFields fieldName))
        [''Reach'', ''Confidence'', ''Effort'', ''Impact''])"

text \<open>
  Deduplication by Trello id: \<^verbatim>\<open>cards[0]\<close> of every id group; a group is never empty.
\<close>

definition uniqueCards :: "card list \<Rightarrow> card list" where
  "uniqueCards trelloCards = concat (map (take 1) (obj_values (group_into card_id trelloCards [])))"

definition listNameOf :: "string obj \<Rightarrow> card \<Rightarrow> string" where
  "listNameOf listIdToNameMap c =
     (case truthy_get listIdToNameMap (idList c) of None \<Rightarrow> ''Unknown'' | Some n \<Rightarrow> n)"

text \<open>The body of the loop over the unique cards, with its \<^verbatim>\<open>try\<close>/\<^verbatim>\<open>catch\<close>.\<close>

definition syncCard ::
  "remote \<Rightarrow> string obj \<Rightarrow> field_def list \<Rightarrow> entry obj \<Rightarrow> card \<Rightarrow> sync_state \<Rightarrow> sync_state" where
  "syncCard r listIdToNameMap trelloCustomFields notionByTrelloId c st =
     (let listName = listNameOf listIdToNameMap c;
          customFields = extractTrelloCustomFields c trelloCustomFields;
          notionProperties = mapTrelloToNotion (js r) c customFields listName
      in case obj_get notionByTrelloId (card_id c) of
           Some existingNotionEntry \<Rightarrow>
             if shouldUpdateNotionEntry (js r) existingNotionEntry c customFields listName then
               (case perform r (NotionUpdateEntry (entry_id existingNotionEntry) notionProperties) st of
                  (True, st') \<Rightarrow> st'\<lparr>trelloToNotion_updated := trelloToNotion_updated st' + 1\<rparr>
                | (False, st') \<Rightarrow> count_error st')
             else st
         | None \<Rightarrow>
             (case perform r (NotionCreateEntry notionProperties) st of
                (True, st') \<Rightarrow> st'\<lparr>trelloToNotion_created := trelloToNotion_created st' + 1\<rparr>
              | (False, st') \<Rightarrow> count_error st'))"

definition syncTrelloToNotion ::
  "remote \<Rightarrow> card list \<Rightarrow> string obj \<Rightarrow> field_def list \<Rightarrow> entry obj \<Rightarrow> sync_state \<Rightarrow> sync_state" where
  "syncTrelloToNotion r trelloCards listIdToNameMap trelloCustomFields notionByTrelloId st =
     foldl (\<lambda>s c. syncCard r listIdToNameMap trelloCustomFields notionByTrelloId c s)
       st (uniqueCards trelloCards)"

text \<open>
  A sequence of awaited calls: the first rejected call throws, the rest is not issued.
  The flag says whether the sequence ran to its end.
\<close>

fun run_calls :: "remote \<Rightarrow> call list \<Rightarrow> sync_state \<Rightarrow> bool \<times> sync_state" where
  "run_calls r [] st = (True, st)"
| "run_calls r (c # cs) st =
     (case perform r c st of (True, st') \<Rightarrow> run_calls r cs st' | (False, st') \<Rightarrow> (False, st'))"

definition createTrelloCardFromNotion ::
  "remote \<Rightarrow> entry \<Rightarrow> string obj \<Rightarrow> sync_state \<Rightarrow> bool \<times> sync_state" where
  "createTrelloCardFromNotion r notionEntry listNameToIdMap st =
     (let title = extractTitleValue (obj_get (entry_properties notionEntry) ''Priority Name'');
          department = extractSelectValue (obj_get (entry_properties notionEntry) ''Department'');
          listId = (case truthy_get listNameToIdMap department of
                      Some i \<Rightarrow> Some i
                    | None \<Rightarrow> (case obj_values listNameToIdMap of [] \<Rightarrow> None | i # _ \<Rightarrow> Some i));
          newCardId = createdCardId r (calls st)
      in case perform r (TrelloCreateCard (if title \<noteq> [] then title else ''Untitled'') listId) st of
           (False, st1) \<Rightarrow> (False, st1)
         | (True, st1) \<Rightarrow>
             (case perform r
                     (NotionUpdateEntry (entry_id notionEntry)
                        [(''Trello ID'', RichText [Rich (Some newCardId)])]) st1 of
                (False, st2) \<Rightarrow> (False, st2)
              | (True, st2) \<Rightarrow>
                  (case apiCustomFields r (calls st2) of
                     Inl e \<Rightarrow> (False, logged TrelloGetCustomFields False st2)
                   | Inr customFields \<Rightarrow>
                       (case truthy_get (createCustomFieldMap customFields) ''Notion Link'' of
                          None \<Rightarrow> (True, logged TrelloGetCustomFields True st2)
                        | Some fieldId \<Rightarrow>
                            perform r
                              (TrelloUpdateTextCustomField newCardId fieldId
                                 (JStr (generateNotionPageUrl (entry_id notionEntry))))
                              (logged TrelloGetCustomFields True st2)))))"

definition customFieldCall :: "string \<Rightarrow> string obj \<Rightarrow> string \<times> jsval \<Rightarrow> call list" where
  "customFieldCall cardId customFieldMap fv =
     (case truthy_get customFieldMap (fst fv) of
        None \<Rightarrow> []
      | Some fieldId \<Rightarrow>
          if snd fv \<noteq> JNull \<and> snd fv \<noteq> JUndefined then
            [if fst fv = ''synced'' then TrelloUpdateCheckboxCustomField cardId fieldId (snd fv)
             else (case snd fv of
                     JBool b \<Rightarrow> TrelloUpdateCheckboxCustomField cardId fieldId (snd fv)
                   | JStr s \<Rightarrow> TrelloUpdateTextCustomField cardId fieldId (snd fv)
                   | _ \<Rightarrow> TrelloUpdateCustomField cardId fieldId (snd fv))]
          else [])"

text \<open>
  The calls \<^verbatim>\<open>updateTrelloFromNotion\<close> awaits, in order; none depends on the answer to
  an earlier one, and \<^verbatim>\<open>hasUpdates\<close> is set exactly when one was issued.
\<close>

definition updateTrelloFromNotion_calls ::
  "runtime \<Rightarrow> entry \<Rightarrow> card \<Rightarrow> string obj \<Rightarrow> string obj \<Rightarrow> call list" where
  "updateTrelloFromNotion_calls rt notionEntry trelloCard listNameToIdMap customFieldMap =
     (let u = mapNotionToTrello notionEntry;
          department = extractSelectValue (obj_get (entry_properties notionEntry) ''Department'');
          totalScore = extractNumericValue (obj_get (entry_properties notionEntry) ''Total Score'');
          notionPageUrl = JStr (generateNotionPageUrl (entry_id notionEntry))
      in (case update_name u of
            None \<Rightarrow> []
          | Some n \<Rightarrow>
              if hasChanged rt (JStr n) (JStr (card_name trelloCard))
              then [TrelloUpdateCard (card_id trelloCard) n] else [])
         @ (case truthy_get listNameToIdMap department of
              None \<Rightarrow> []
            | Some targetListId \<Rightarrow>
                if hasChanged rt (JStr targetListId) (JStr (idList trelloCard))
                then [TrelloMoveCard (card_id trelloCard) targetListId] else [])
         @ concat (map (customFieldCall (card_id trelloCard) customFieldMap)
                     (obj_entries (update_customFields u)))
         @ (case truthy_get customFieldMap ''Total Score'' of
              None \<Rightarrow> []
            | Some fieldId \<Rightarrow>
                if totalScore \<noteq> JNull \<and> totalScore \<noteq> JUndefined
                then [TrelloUpdateCustomField (card_id trelloCard) fieldId totalScore] else [])
         @ (case truthy_get customFieldMap ''Notion Link'' of
              None \<Rightarrow> []
            | Some fieldId \<Rightarrow>
                if hasChanged rt (getTrelloTextCustomFieldValue trelloCard fieldId) notionPageUrl
                then [TrelloUpdateTextCustomField (card_id trelloCard) fieldId notionPageUrl]
                else []))"

definition updateTrelloFromNotion ::
  "remote \<Rightarrow> entry \<Rightarrow> card \<Rightarrow> string obj \<Rightarrow> string obj \<Rightarrow> sync_state \<Rightarrow> bool \<times> sync_state" where
  "updateTrelloFromNotion r notionEntry trelloCard listNameToIdMap customFieldMap st =
     (let plan = updateTrelloFromNotion_calls (js r) notionEntry trelloCard listNameToIdMap customFieldMap
      in case run_calls r plan st of
           (True, st') \<Rightarrow>
             (True, if plan \<noteq> [] then st'\<lparr>notionToTrello_updated := notionToTrello_updated st' + 1\<rparr>
                    else st')
         | (False, st') \<Rightarrow> (False, st'))"

definition syncEntry ::
  "remote \<Rightarrow> string obj \<Rightarrow> string obj \<Rightarrow> card obj \<Rightarrow> entry \<Rightarrow> sync_state \<Rightarrow> sync_state" where
  "syncEntry r listNameToIdMap customFieldMap trelloCardMap e st =
     (if trelloIdOf e = [] then
        (case createTrelloCardFromNotion r e listNameToIdMap st of
           (True, st') \<Rightarrow> st'\<lparr>notionToTrello_created := notionToTrello_created st' + 1\<rparr>
         | (False, st') \<Rightarrow> count_error st')
      else
        (case obj_get trelloCardMap (trelloIdOf e) of
           None \<Rightarrow> st
         | Some trelloCard \<Rightarrow>
             (case updateTrelloFromNotion r e trelloCard listNameToIdMap customFieldMap st of
                (True, st') \<Rightarrow> st'
              | (False, st') \<Rightarrow> count_error st')))"

definition totalScoreEntry :: "remote \<Rightarrow> string \<Rightarrow> card obj \<Rightarrow> entry \<Rightarrow> sync_state \<Rightarrow> sync_state" where
  "totalScoreEntry r totalScoreFieldId cardMap e st =
     (if trelloIdOf e = [] then st
      else
        (case obj_get cardMap (trelloIdOf e) of
           None \<Rightarrow> st
         | Some trelloCard \<Rightarrow>
             (let notionTotalScore =
                    extractNumericValue (obj_get (entry_properties e) ''Total Score'')
              in if notionTotalScore = JNull \<or> notionTotalScore = JUndefined then st
                 else if hasChanged (js r)
                           (getTrelloCustomFieldValue trelloCard totalScoreFieldId) notionTotalScore
                 then (case perform r
                              (TrelloUpdateCustomField (card_id trelloCard) totalScoreFieldId
                                 notionTotalScore) st of
                         (True, st') \<Rightarrow> st'
                       | (False, st') \<Rightarrow> count_error st')
                 else st)))"

text \<open>Called by the pass with the card map it has already built, so nothing is fetched.\<close>

definition syncTotalScoreToTrello ::
  "remote \<Rightarrow> entry list \<Rightarrow> string obj \<Rightarrow> card obj \<Rightarrow> sync_state \<Rightarrow> sync_state" where
  "syncTotalScoreToTrello r notionEntries customFieldMap trelloCardMap st =
     (case truthy_get customFieldMap ''Total Score'' of
        None \<Rightarrow> st
      | Some totalScoreFieldId \<Rightarrow>
          foldl (\<lambda>s e. totalScoreEntry r totalScoreFieldId trelloCardMap e s) st notionEntries)"

text \<open>The card listing at the head of the pass is outside any \<^verbatim>\<open>try\<close>: its error leaves the pass.\<close>

definition syncNotionToTrello ::
  "remote \<Rightarrow> entry list \<Rightarrow> string obj \<Rightarrow> string obj \<Rightarrow> sync_state \<Rightarrow> error option \<times> sync_state" where
  "syncNotionToTrello r notionEntries listNameToIdMap customFieldMap st =
     (case getCards r (calls st) of
        Inl e \<Rightarrow> (Some e, logged TrelloGetCards False st)
      | Inr trelloCards \<Rightarrow>
          (None,
           syncTotalScoreToTrello r notionEntries customFieldMap (createCardMap trelloCards)
             (foldl (\<lambda>s e. syncEntry r listNameToIdMap customFieldMap (createCardMap trelloCards) e s)
                (logged TrelloGetCards True st) notionEntries)))"

definition archiveStep :: "remote \<Rightarrow> card obj \<Rightarrow> entry \<Rightarrow> sync_state \<Rightarrow> sync_state" where
  "archiveStep r trelloCardMap e st =
     (if extractCheckboxValue (obj_get (entry_properties e) ''synced'')
         \<and> trelloIdOf e \<noteq> [] \<and> obj_get trelloCardMap (trelloIdOf e) = None
      then (case perform r (NotionDeletePage (entry_id e)) st of
              (True, st') \<Rightarrow> st'\<lparr>notionToTrello_updated := notionToTrello_updated st' + 1\<rparr>
            | (False, st') \<Rightarrow> count_error st')
      else st)"

definition deleteStep :: "remote \<Rightarrow> string \<Rightarrow> entry obj \<Rightarrow> card \<Rightarrow> sync_state \<Rightarrow> sync_state" where
  "deleteStep r syncedFieldId notionEntryMap c st =
     (if getTrelloCheckboxCustomFieldValue c syncedFieldId \<and> obj_get notionEntryMap (card_id c) = None
      then (case perform r (TrelloDeleteCard (card_id c)) st of
              (True, st') \<Rightarrow> st'\<lparr>trelloToNotion_updated := trelloToNotion_updated st' + 1\<rparr>
            | (False, st') \<Rightarrow> count_error st')
      else st)"

definition handleDeletionSync ::
  "remote \<Rightarrow> card list \<Rightarrow> entry list \<Rightarrow> string obj \<Rightarrow> sync_state \<Rightarrow> sync_state" where
  "handleDeletionSync r trelloCards notionEntries customFieldMap st =
     (case truthy_get customFieldMap ''synced'' of
        None \<Rightarrow> st
      | Some syncedFieldId \<Rightarrow>
          foldl (\<lambda>s c. deleteStep r syncedFieldId (createNotionLookupMap notionEntries) c s)
            (foldl (\<lambda>s e. archiveStep r (createCardMap trelloCards) e s) st notionEntries)
            trelloCards)"

text \<open>
  The four listings of \<^verbatim>\<open>Promise.all\<close> are read before any call of the pass. When several
  are rejected the error of the first in the array is taken. \<open>None\<close> is the normal return
  of the statistics; \<open>Some e\<close> is the error re-thrown after counting it.
\<close>

definition performSync :: "remote \<Rightarrow> error option \<times> sync_state" where
  "performSync r =
     (case getCards r [] of
        Inl e \<Rightarrow> (Some e, count_error resetStats)
      | Inr trelloCards \<Rightarrow>
     (case apiLists r [] of
        Inl e \<Rightarrow> (Some e, count_error resetStats)
      | Inr trelloLists \<Rightarrow>
     (case apiCustomFields r [] of
        Inl e \<Rightarrow> (Some e, count_error resetStats)
      | Inr trelloCustomFields \<Rightarrow>
     (case apiEntries r [] of
        Inl e \<Rightarrow> (Some e, count_error resetStats)
      | Inr notionEntries \<Rightarrow>
          (case syncNotionToTrello r notionEntries (createListMapReverse trelloLists)
                  (createCustomFieldMap trelloCustomFields)
                  (syncTrelloToNotion r trelloCards (createListMap trelloLists) trelloCustomFields
                     (createNotionLookupMap notionEntries) resetStats) of
             (Some e, st) \<Rightarrow> (Some e, count_error st)
           | (None, st) \<Rightarrow>
               (None,
                handleDeletionSync r trelloCards notionEntries
                  (createCustomFieldMap trelloCustomFields) st))))))"

section \<open>Auxiliary notions for the statements\<close>



definition outcomes :: "sync_state \<Rightarrow> sync_state \<Rightarrow> trace" where
  "outcomes st st' = drop (length (calls st)) (calls st')"



text \<open>
  The deletion convention in the words of the design: an entry is to be archived when it
  is marked synced and its non-empty cross-reference names no fetched card; a card is to
  be deleted when its synced marker reads true and no entry refers to its id.
\<close>

definition archivable :: "card list \<Rightarrow> entry \<Rightarrow> bool" where
  "archivable trelloCards e =
     (extractCheckboxValue (obj_get (entry_properties e) ''synced'')
      \<and> trelloIdOf e \<noteq> [] \<and> trelloIdOf e \<notin> set (map card_id trelloCards))"



fun is_archive :: "call \<Rightarrow> bool" where
  "is_archive (NotionDeletePage pageId) = True"
| "is_archive _ = False"

fun is_delete :: "call \<Rightarrow> bool" where
  "is_delete (TrelloDeleteCard cardId) = True"
| "is_delete _ = False"

text \<open>How many calls of a trace of the given kind succeeded, and how many calls failed.\<close>

definition succeeded :: "(call \<Rightarrow> bool) \<Rightarrow> trace \<Rightarrow> nat" where
  "succeeded P t = length (filter (\<lambda>p. snd p \<and> P (fst p)) t)"

definition failed :: "trace \<Rightarrow> nat" where
  "failed t = length (filter (\<lambda>p. \<not> snd p) t)"


definition deletion_tally :: "sync_state \<Rightarrow> sync_state \<Rightarrow> trace \<Rightarrow> bool" where
  "deletion_tally st st' new =
     (calls st' = calls st @ new
      \<and> list_all (\<lambda>p. is_archive (fst p) \<or> is_delete (fst p)) new
      \<and> notionToTrello_updated st' = notionToTrello_updated st + succeeded is_archive new
      \<and> trelloToNotion_updated st' = trelloToNotion_updated st + succeeded is_delete new
      \<and> errors st' = errors st + failed new
      \<and> trelloToNotion_created st' = trelloToNotion_created st
      \<and> notionToTrello_created st' = notionToTrello_created st)"

text \<open>
  Book-keeping of a sequence that may throw: the error tally is untouched, and the added
  trace holds one failed call exactly when the sequence threw.
\<close>

definition threw :: "sync_state \<Rightarrow> bool \<times> sync_state \<Rightarrow> trace \<Rightarrow> bool" where
  "threw st res new =
     (calls (snd res) = calls st @ new \<and> errors (snd res) = errors st
      \<and> failed new = (if fst res then 0 else 1))"

section \<open>Concrete scenarios\<close>

text \<open>
  A runtime for the scenarios. It agrees with JavaScript on the integers of magnitude
  below \<open>10^21\<close> and on strings of decimal digits, which is all the scenarios contain.
\<close>

fun nat_digits :: "nat \<Rightarrow> string" where
  "nat_digits n =
     (if n < 10 then [char_of (48 + n)] else nat_digits (n div 10) @ [char_of (48 + n mod 10)])"

definition sampleRuntime :: runtime where
  "sampleRuntime =
     \<lparr> numberToString =
         (\<lambda>x. if x < 0 then CHR ''-'' # nat_digits (nat \<lfloor>- x\<rfloor>) else nat_digits (nat \<lfloor>x\<rfloor>)),
       parseNumber =
         (\<lambda>s. if trim s = [] then JNum 0
              else if list_all is_digit (trim s) then JNum (real (str_nat (trim s)))
              else JNaN) \<rparr>"

text \<open>A remote side whose listings do not change during the pass.\<close>

definition staticRemote ::
  "card list \<Rightarrow> trello_list list \<Rightarrow> field_def list \<Rightarrow> entry list \<Rightarrow> (call \<Rightarrow> bool) \<Rightarrow> remote" where
  "staticRemote cs ls fds es fails =
     \<lparr> js = sampleRuntime,
       apiCards = (\<lambda>t. Inr cs),
       apiLists = (\<lambda>t. Inr ls),
       apiCustomFields = (\<lambda>t. Inr fds),
       apiEntries = (\<lambda>t. Inr es),
       callFails = (\<lambda>t. fails),
       createdCardId = (\<lambda>t. ''newcard'') \<rparr>"

definition checkedItem :: "string \<Rightarrow> field_item" where
  "checkedItem fieldId =
     \<lparr> idCustomField = fieldId,
       item_val = Some \<lparr> v_number = JUndefined, v_text = JUndefined, v_checked = JStr ''true'' \<rparr> \<rparr>"

definition numberItem :: "string \<Rightarrow> jsval \<Rightarrow> field_item" where
  "numberItem fieldId v =
     \<lparr> idCustomField = fieldId,
       item_val = Some \<lparr> v_number = v, v_text = JUndefined, v_checked = JUndefined \<rparr> \<rparr>"

definition linkedEntry :: "string \<Rightarrow> string \<Rightarrow> string \<Rightarrow> string \<Rightarrow> bool \<Rightarrow> properties \<Rightarrow> entry" where
  "linkedEntry pageId title department trelloId synced others =
     \<lparr> entry_id = pageId,
       entry_properties =
         [(''Priority Name'', Title [Rich (Some title)]),
          (''Department'', Select (Some department)),
          (''Trello ID'', RichText [Rich (Some trelloId)]),
          (''synced'', Checkbox synced)] @ others \<rparr>"

definition doingList :: trello_list where
  "doingList = \<lparr> list_id = ''l1'', list_name = ''Doing'' \<rparr>"





text \<open>
  A linked pair in agreement on every compared field: same title, same list, Reach 5 on
  both sides, the synced marker set on both sides. The card carries its values the way
  the Trello API sends them, the number as the string \<^verbatim>\<open>"5"\<close> and the checkbox as
  the string \<^verbatim>\<open>"true"\<close>.
\<close>

definition steadyCard :: card where
  "steadyCard = \<lparr> card_id = ''c1'', card_name = ''Task A'', idList = ''l1'', dateLastActivity = 1,
                  customFieldItems = Some [numberItem ''fr'' (JStr ''5''), checkedItem ''fs''] \<rparr>"

definition steadyEntry :: entry where
  "steadyEntry = linkedEntry ''e1'' ''Task A'' ''Doing'' ''c1'' True [(''Reach'', Number (JNum 5))]"

definition steadyFields :: "field_def list" where
  "steadyFields = [\<lparr> field_id = ''fr'', field_name = ''Reach'' \<rparr>,
                   \<lparr> field_id = ''fs'', field_name = ''synced'' \<rparr>]"

definition steadyRemote :: remote where
  "steadyRemote = staticRemote [steadyCard] [doingList] steadyFields [steadyEntry] (\<lambda>c. False)"

text \<open>
  An entry whose Total Score formula gives 42, linked to a card that shows a given score
  (a string, as the Trello API sends the value of a number field).
\<close>

definition scoreCard :: "string \<Rightarrow> card" where
  "scoreCard shown = \<lparr> card_id = ''c1'', card_name = ''Task A'', idList = ''l1'', dateLastActivity = 1,
                       customFieldItems = Some [numberItem ''ft'' (JStr shown)] \<rparr>"

definition scoreEntry :: entry where
  "scoreEntry =
     linkedEntry ''e1'' ''Task A'' ''Doing'' ''c1'' True
       [(''Total Score'', Formula (FNumber (JNum 42)))]"

definition scoreFields :: "field_def list" where
  "scoreFields = [\<lparr> field_id = ''ft'', field_name = ''Total Score'' \<rparr>]"

definition scoreRemote :: "string \<Rightarrow> remote" where
  "scoreRemote shown =
     staticRemote [scoreCard shown] [doingList] scoreFields [scoreEntry] (\<lambda>c. False)"

text \<open>
  For the deletion pass: a synced card no entry refers to, a synced entry whose card is
  gone, an unsynced entry whose card is gone, and a linked synced pair.
\<close>

definition orphanCard :: card where
  "orphanCard = \<lparr> card_id = ''c9'', card_name = ''Orphan'', idList = ''l1'', dateLastActivity = 1,
                  customFieldItems = Some [checkedItem ''fs''] \<rparr>"

definition pairedCard :: card where
  "pairedCard = \<lparr> card_id = ''c5'', card_name = ''Paired'', idList = ''l1'', dateLastActivity = 1,
                  customFieldItems = Some [checkedItem ''fs''] \<rparr>"

definition danglingEntry :: entry where
  "danglingEntry = linkedEntry ''e7'' ''Gone'' ''Doing'' ''c7'' True []"

definition unsyncedEntry :: entry where
  "unsyncedEntry = linkedEntry ''e8'' ''Fresh'' ''Doing'' ''c8'' False []"

definition pairedEntry :: entry where
  "pairedEntry = linkedEntry ''e5'' ''Paired'' ''Doing'' ''c5'' True []"

definition deletionCards :: "card list" where
  "deletionCards = [orphanCard, pairedCard]"

definition deletionEntries :: "entry list" where
  "deletionEntries = [danglingEntry, unsyncedEntry, pairedEntry]"

definition quietRemote :: remote where
  "quietRemote = staticRemote [] [] [] [] (\<lambda>c. False)"



section \<open>Unfolding sets for evaluation\<close>

lemmas obj_defs = obj_get_def obj_entries_def obj_values_def group_push_def is_array_index_def
  is_digit_def str_nat_def trim_def is_space_def truthy_get_def

lemmas engine_defs = performSync_def getCards_def removeProblematicCards_def keep_of_duplicates_def
  syncTrelloToNotion_def syncCard_def uniqueCards_def listNameOf_def extractTrelloCustomFields_def
  item_extract_def mapTrelloToNotion_def number_prop_def field_value_def shouldUpdateNotionEntry_def
  hasChanged_def nullish_def extractNumberValue_def
  syncNotionToTrello_def syncEntry_def updateTrelloFromNotion_def updateTrelloFromNotion_calls_def
  customFieldCall_def mapNotionToTrello_def number_field_def createTrelloCardFromNotion_def
  syncTotalScoreToTrello_def totalScoreEntry_def getTrelloCustomFieldValue_def
  getTrelloTextCustomFieldValue_def getTrelloCheckboxCustomFieldValue_def find_item_def
  handleDeletionSync_def archiveStep_def deleteStep_def
  createListMap_def createListMapReverse_def createCustomFieldMap_def createNotionLookupMap_def
  createCardMap_def trelloIdOf_def generateNotionPageUrl_def
  perform_def logged_def count_error_def resetStats_def

lemmas scenario_defs = staticRemote_def checkedItem_def numberItem_def linkedEntry_def doingList_def

lemma sampleRuntime_5: "numberToString sampleRuntime 5 = ''5''"
  by code_simp

lemma sampleRuntime_42: "numberToString sampleRuntime 42 = ''42''"
  by code_simp

section \<open>Objects and grouping\<close>



lemma obj_get_None: "(obj_get m k = None) = (k \<notin> set (map fst m))"
  by (simp add: obj_get_def map_of_eq_None_iff)




lemma keyset_obj_set: "fst ` set (obj_set m k v) = insert k (fst ` set m)"
  by (induction m) auto






lemma set_obj_entries: "set (obj_entries m) = set m"
  by (auto simp: obj_entries_def)














section \<open>The Board-to-Database pass\<close>

lemma calls_perform: "calls (snd (perform r c st)) = calls st @ [(c, \<not> callFails r (calls st) c)]"
  by (simp add: perform_def logged_def)

lemma calls_count_error: "calls (count_error st) = calls st"
  by (simp add: count_error_def)












section \<open>The card listing\<close>







section \<open>The deletion pass\<close>

lemma keyset_foldl_obj_set:
  "fst ` set (foldl (\<lambda>m x. if p x then obj_set m (k x) (v x) else m) m0 xs) =
   fst ` set m0 \<union> k ` {x \<in> set xs. p x}"
  by (induction xs arbitrary: m0) (auto simp: keyset_obj_set)









lemma createCustomFieldMap_miss:
  "name \<notin> set (map field_name fds) \<Longrightarrow> truthy_get (createCustomFieldMap fds) name = None"
proof -
  assume a: "name \<notin> set (map field_name fds)"
  have "fst ` set (createCustomFieldMap fds) = field_name ` set fds"
    using keyset_foldl_obj_set [of "\<lambda>f. True" field_name field_id "[]" fds]
    by (simp add: createCustomFieldMap_def)
  with a have "obj_get (createCustomFieldMap fds) name = None"
    by (simp add: obj_get_None)
  then show ?thesis by (simp add: truthy_get_def)
qed



section \<open>Counters of the deletion pass\<close>

lemma succeeded_append: "succeeded P (a @ b) = succeeded P a + succeeded P b"
  by (simp add: succeeded_def)

lemma failed_append: "failed (a @ b) = failed a + failed b"
  by (simp add: failed_def)

lemma deletion_tally_refl: "deletion_tally st st []"
  by (simp add: deletion_tally_def succeeded_def failed_def)

lemma deletion_tally_trans:
  "deletion_tally a b x \<Longrightarrow> deletion_tally b c y \<Longrightarrow> deletion_tally a c (x @ y)"
  by (simp add: deletion_tally_def succeeded_append failed_append)

lemma archiveStep_tally: "\<exists>new. deletion_tally st (archiveStep r m e st) new"
proof (cases "extractCheckboxValue (obj_get (entry_properties e) ''synced'')
         \<and> trelloIdOf e \<noteq> [] \<and> obj_get m (trelloIdOf e) = None")
  case False
  then have "archiveStep r m e st = st" by (auto simp: archiveStep_def)
  then show ?thesis using deletion_tally_refl by metis
next
  case True
  then have "deletion_tally st (archiveStep r m e st)
     [(NotionDeletePage (entry_id e), \<not> callFails r (calls st) (NotionDeletePage (entry_id e)))]"
    by (simp add: archiveStep_def deletion_tally_def perform_def logged_def count_error_def
        succeeded_def failed_def)
  then show ?thesis ..
qed

lemma deleteStep_tally: "\<exists>new. deletion_tally st (deleteStep r fid m c st) new"
proof (cases "getTrelloCheckboxCustomFieldValue c fid \<and> obj_get m (card_id c) = None")
  case False
  then have "deleteStep r fid m c st = st" by (auto simp: deleteStep_def)
  then show ?thesis using deletion_tally_refl by metis
next
  case True
  then have "deletion_tally st (deleteStep r fid m c st)
     [(TrelloDeleteCard (card_id c), \<not> callFails r (calls st) (TrelloDeleteCard (card_id c)))]"
    by (simp add: deleteStep_def deletion_tally_def perform_def logged_def count_error_def
        succeeded_def failed_def)
  then show ?thesis ..
qed

lemma loop_deletion_tally:
  assumes "\<And>x s. \<exists>new. deletion_tally s (step x s) new"
  shows "\<exists>new. deletion_tally st (foldl (\<lambda>s x. step x s) st xs) new"
proof (induction xs arbitrary: st)
  case Nil
  show ?case using deletion_tally_refl by auto
next
  case (Cons x xs)
  from assms obtain a where a: "deletion_tally st (step x st) a" by blast
  from Cons.IH obtain b where
    b: "deletion_tally (step x st) (foldl (\<lambda>s x. step x s) (step x st) xs) b" by blast
  from deletion_tally_trans [OF a b] show ?case by auto
qed

lemma handleDeletionSync_tally:
  "\<exists>new. deletion_tally st (handleDeletionSync r cs es cfm st) new"
proof (cases "truthy_get cfm ''synced''")
  case None
  then show ?thesis using deletion_tally_refl [of st] by (auto simp: handleDeletionSync_def)
next
  case (Some fid)
  obtain a where a: "deletion_tally st
      (foldl (\<lambda>s e. archiveStep r (createCardMap cs) e s) st es) a"
    using loop_deletion_tally [of "archiveStep r (createCardMap cs)" st es] archiveStep_tally
    by blast
  obtain b where b: "deletion_tally (foldl (\<lambda>s e. archiveStep r (createCardMap cs) e s) st es)
      (foldl (\<lambda>s c. deleteStep r fid (createNotionLookupMap es) c s)
         (foldl (\<lambda>s e. archiveStep r (createCardMap cs) e s) st es) cs) b"
    using loop_deletion_tally [of "deleteStep r fid (createNotionLookupMap es)"] deleteStep_tally
    by blast
  from deletion_tally_trans [OF a b] Some show ?thesis
    by (auto simp: handleDeletionSync_def)
qed

lemma outcomes_append: "calls st' = calls st @ new \<Longrightarrow> outcomes st st' = new"
  by (simp add: outcomes_def)



section \<open>The error tally\<close>






lemma perform_threw: "threw st (perform r c st) [(c, \<not> callFails r (calls st) c)]"
  by (simp add: threw_def perform_def logged_def failed_def)













lemma syncNotionToTrello_throws:
  assumes "getCards r (calls st) = Inl err"
  shows "syncNotionToTrello r es m1 m2 st = (Some err, logged TrelloGetCards False st)"
  using assms by (simp add: syncNotionToTrello_def)

section \<open>The whole pass\<close>





section \<open>The mapper\<close>










section \<open>The change predicate\<close>






section \<open>Updating a card from its entry\<close>

text \<open>
  Whenever the board defines the synced field, updating a card from its entry issues the
  checkbox call, whatever the card holds already.
\<close>

lemma synced_always_pushed:
  assumes "truthy_get customFieldMap ''synced'' = Some fieldId"
  shows "TrelloUpdateCheckboxCustomField (card_id c) fieldId (JBool True)
         \<in> set (updateTrelloFromNotion_calls rt e c listNameToIdMap customFieldMap)"
proof -
  have "(''synced'', JBool True) \<in> set (obj_entries (update_customFields (mapNotionToTrello e)))"
    by (simp add: set_obj_entries mapNotionToTrello_def)
  moreover have "customFieldCall (card_id c) customFieldMap (''synced'', JBool True) =
      [TrelloUpdateCheckboxCustomField (card_id c) fieldId (JBool True)]"
    using assms by (simp add: customFieldCall_def)
  ultimately have "TrelloUpdateCheckboxCustomField (card_id c) fieldId (JBool True)
      \<in> set (concat (map (customFieldCall (card_id c) customFieldMap)
                 (obj_entries (update_customFields (mapNotionToTrello e)))))"
    by force
  then show ?thesis
    by (simp add: updateTrelloFromNotion_calls_def Let_def)
qed

section \<open>The properties of the specification\<close>

text \<open>
  C1. The steady pair agrees on every compared field, and its listings are the same
  before and after the pass (the calls below write the values the card already holds), so
  this run stands for any run after the first. It still issues two field-update calls
  and counts one update: the custom fields of a linked entry are pushed to the card
  without comparing them.
\<close>

theorem C1_steady_state_still_updates:
  "\<not> shouldUpdateNotionEntry sampleRuntime steadyEntry steadyCard
        (extractTrelloCustomFields steadyCard steadyFields) ''Doing''
   \<and> \<not> hasChanged sampleRuntime (getTrelloCustomFieldValue steadyCard ''fr'') (JNum 5)
   \<and> getTrelloCheckboxCustomFieldValue steadyCard ''fs''
   \<and> performSync steadyRemote =
       (None,
        \<lparr>trelloToNotion_created = 0, trelloToNotion_updated = 0,
           notionToTrello_created = 0, notionToTrello_updated = 1, errors = 0,
           calls =
             [(TrelloGetCards, True),
              (TrelloUpdateCustomField ''c1'' ''fr'' (JNum 5), True),
              (TrelloUpdateCheckboxCustomField ''c1'' ''fs'' (JBool True), True)]\<rparr>)"
  by (simp add: engine_defs obj_defs scenario_defs steadyRemote_def steadyCard_def steadyEntry_def
      steadyFields_def sampleRuntime_5 Let_def)








text \<open>
  C4. An entry whose Total Score is 42, linked to a card that shows 40: the pass issues
  two calls setting the card's Total Score to 42, one without comparison while updating the
  card from the entry and one from the Total Score propagation, which compares against
  the card as it was fetched before the first call. Run again on a card that shows 42, the
  pass still issues the call made without comparison.
\<close>

theorem C4_total_score_calls:
  "calls (snd (performSync (scoreRemote ''40''))) =
     [(TrelloGetCards, True),
      (TrelloUpdateCustomField ''c1'' ''ft'' (JNum 42), True),
      (TrelloUpdateCustomField ''c1'' ''ft'' (JNum 42), True)]
   \<and> calls (snd (performSync (scoreRemote ''42''))) =
     [(TrelloGetCards, True),
      (TrelloUpdateCustomField ''c1'' ''ft'' (JNum 42), True)]"
  by (simp add: engine_defs obj_defs scenario_defs scoreRemote_def scoreCard_def scoreEntry_def
      scoreFields_def sampleRuntime_42 Let_def)









text \<open>
  C9. When no custom field of the board is named synced, the deletion pass returns at
  once: it issues no call and changes no counter, so nothing is archived and nothing is
  deleted, although the archival test on entries never reads the board's synced field.
\<close>

theorem C9_no_synced_field_no_deletion:
  assumes "''synced'' \<notin> set (map field_name trelloCustomFields)"
  shows "handleDeletionSync r trelloCards notionEntries (createCustomFieldMap trelloCustomFields) st = st"
  using createCustomFieldMap_miss [OF assms] by (simp add: handleDeletionSync_def)

theorem C9_no_synced_field_no_deletion_witness:
  "''synced'' \<notin> set (map field_name scoreFields)
   \<and> archivable deletionCards danglingEntry
   \<and> handleDeletionSync quietRemote deletionCards deletionEntries
         (createCustomFieldMap scoreFields) resetStats = resetStats"
proof -
  have h: "''synced'' \<notin> set (map field_name scoreFields)"
    by (simp add: scoreFields_def)
  have a: "archivable deletionCards danglingEntry"
    by (simp add: archivable_def trelloIdOf_def deletionCards_def orphanCard_def pairedCard_def
        danglingEntry_def scenario_defs obj_get_def)
  have b: "handleDeletionSync quietRemote deletionCards deletionEntries
         (createCustomFieldMap scoreFields) resetStats = resetStats"
    by (rule C9_no_synced_field_no_deletion [OF h])
  from h a b show ?thesis by (intro conjI)
qed

text \<open>
  C10. Deletions are reported as updates. Over the deletion pass the counter
  \<open>notionToTrello.updated\<close> grows by the number of entries archived (archive calls that
  succeeded) and \<open>trelloToNotion.updated\<close> by the number of cards deleted (delete calls
  that succeeded); the pass issues no other kind of call, a rejected call counts as an
  error, the two \<open>created\<close> counters do not move, and the statistics have no counter
  of their own for deletions.
\<close>

theorem C10_deletions_counted_as_updates:
  "notionToTrello_updated (handleDeletionSync r trelloCards notionEntries customFieldMap st) =
     notionToTrello_updated st
     + succeeded is_archive
         (outcomes st (handleDeletionSync r trelloCards notionEntries customFieldMap st))
   \<and> trelloToNotion_updated (handleDeletionSync r trelloCards notionEntries customFieldMap st) =
     trelloToNotion_updated st
     + succeeded is_delete
         (outcomes st (handleDeletionSync r trelloCards notionEntries customFieldMap st))
   \<and> deletion_tally st (handleDeletionSync r trelloCards notionEntries customFieldMap st)
        (outcomes st (handleDeletionSync r trelloCards notionEntries customFieldMap st))"
proof -
  obtain new where
    t: "deletion_tally st (handleDeletionSync r trelloCards notionEntries customFieldMap st) new"
    using handleDeletionSync_tally by blast
  then have "outcomes st (handleDeletionSync r trelloCards notionEntries customFieldMap st) = new"
    by (simp add: deletion_tally_def outcomes_append)
  with t show ?thesis by (simp add: deletion_tally_def)
qed

theorem C10_deletions_counted_as_updates_witness:
  "handleDeletionSync quietRemote deletionCards deletionEntries [(''synced'', ''fs'')] resetStats =
     \<lparr> trelloToNotion_created = 0, trelloToNotion_updated = 1,
       notionToTrello_created = 0, notionToTrello_updated = 1, errors = 0,
       calls = [(NotionDeletePage ''e7'', True), (TrelloDeleteCard ''c9'', True)] \<rparr>
   \<and> notionToTrello_updated
       (handleDeletionSync quietRemote deletionCards deletionEntries [(''synced'', ''fs'')] resetStats) =
     0 + succeeded is_archive [(NotionDeletePage ''e7'', True), (TrelloDeleteCard ''c9'', True)]"
proof -
  have e: "handleDeletionSync quietRemote deletionCards deletionEntries [(''synced'', ''fs'')] resetStats =
     \<lparr> trelloToNotion_created = 0, trelloToNotion_updated = 1,
       notionToTrello_created = 0, notionToTrello_updated = 1, errors = 0,
       calls = [(NotionDeletePage ''e7'', True), (TrelloDeleteCard ''c9'', True)] \<rparr>"
    by (simp add: engine_defs obj_defs scenario_defs quietRemote_def deletionCards_def
        deletionEntries_def orphanCard_def pairedCard_def danglingEntry_def unsyncedEntry_def
        pairedEntry_def)
  have o: "outcomes resetStats
      (handleDeletionSync quietRemote deletionCards deletionEntries [(''synced'', ''fs'')] resetStats) =
      [(NotionDeletePage ''e7'', True), (TrelloDeleteCard ''c9'', True)]"
    unfolding e by (simp add: outcomes_def resetStats_def)
  have z: "notionToTrello_updated resetStats = 0"
    by (simp add: resetStats_def)
  from C10_deletions_counted_as_updates
         [of quietRemote deletionCards deletionEntries "[(''synced'', ''fs'')]" resetStats]
  have "notionToTrello_updated
       (handleDeletionSync quietRemote deletionCards deletionEntries [(''synced'', ''fs'')] resetStats) =
     0 + succeeded is_archive [(NotionDeletePage ''e7'', True), (TrelloDeleteCard ''c9'', True)]"
    unfolding o z by (rule conjunct1)
  with e show ?thesis by (intro conjI)
qed

end
